theory Spec2Isabelle
  imports Main
begin

section \<open>Python values and strings\<close>

text \<open>
  The values that reach the settings class before validation are dynamically typed.
  Only the shapes the field declarations of \<^verbatim>\<open>config.py\<close> mention are needed:
  \<^verbatim>\<open>None\<close>, booleans, integers, strings and lists.
\<close>

datatype pyval = PNone | PBool bool | PInt int | PStr string | PList "pyval list"

text \<open>\<^verbatim>\<open>s.startswith(p)\<close> for one prefix, and for a tuple of prefixes (any of them).\<close>

fun startswith :: "string \<Rightarrow> string \<Rightarrow> bool" where
  "startswith s [] = True"
| "startswith [] (p # ps) = False"
| "startswith (c # cs) (p # ps) = (c = p \<and> startswith cs ps)"

definition startswith_any :: "string \<Rightarrow> string list \<Rightarrow> bool" where
  "startswith_any s ps = list_ex (startswith s) ps"

text \<open>
  \<^verbatim>\<open>s.split(sep)\<close> for a one-character separator: the text is cut at every occurrence of
  the separator, so \<open>n\<close> separators give \<open>n + 1\<close> pieces, empty pieces included.
  \<open>split_from\<close> scans the text; \<open>acc\<close> holds the current piece, reversed.
\<close>

fun split_from :: "char \<Rightarrow> string \<Rightarrow> string \<Rightarrow> string list" where
  "split_from sep acc [] = [rev acc]"
| "split_from sep acc (c # cs) =
     (if c = sep then rev acc # split_from sep [] cs else split_from sep (c # acc) cs)"

definition str_split :: "string \<Rightarrow> char \<Rightarrow> string list" where
  "str_split s sep = split_from sep [] s"

text \<open>\<^verbatim>\<open>sep.join(pieces)\<close>, the inverse of splitting.\<close>

fun str_join :: "char \<Rightarrow> string list \<Rightarrow> string" where
  "str_join sep [] = []"
| "str_join sep [p] = p"
| "str_join sep (p # q # ps) = p @ sep # str_join sep (q # ps)"

section \<open>Configuration: \<^verbatim>\<open>clos/orchestrator/config.py\<close>\<close>

subsection \<open>The validators of the class\<close>

text \<open>
  \<^verbatim>\<open>
  @validator("cors_origins", pre=True)
  def parse_cors_origins(cls, v):
      if isinstance(v, str):
          return v.split(",")
      return v
  \<close>
\<close>

fun parse_cors_origins :: "pyval \<Rightarrow> pyval" where
  "parse_cors_origins (PStr v) = PList (map PStr (str_split v CHR '',''))"
| "parse_cors_origins v = v"

text \<open>
  \<^verbatim>\<open>
  @validator("database_url")
  def validate_database_url(cls, v):
      if not v.startswith(("postgresql://", "postgres://")):
          raise ValueError("Database URL must be a PostgreSQL connection string")
      return v

  @validator("redis_url")
  def validate_redis_url(cls, v):
      if not v.startswith("redis://"):
          raise ValueError("Redis URL must start with redis://")
      return v
  \<close>
  A raised \<^verbatim>\<open>ValueError\<close> is the left summand, carrying its message.
\<close>

definition validate_database_url :: "string \<Rightarrow> string + string" where
  "validate_database_url v =
     (if \<not> startswith_any v [''postgresql://'', ''postgres://'']
      then Inl ''Database URL must be a PostgreSQL connection string''
      else Inr v)"

definition validate_redis_url :: "string \<Rightarrow> string + string" where
  "validate_redis_url v =
     (if \<not> startswith v ''redis://''
      then Inl ''Redis URL must start with redis://''
      else Inr v)"

subsection \<open>The field declarations\<close>

text \<open>
  Each attribute of the class body is a declaration: a name, an annotated type and either a
  default or \<^verbatim>\<open>Field(...)\<close>, which marks the field as required (no default).
\<close>

datatype ftype = TStr | TInt | TBool | TOptStr | TListStr

datatype field_info = Field (fname: string) (ftype: ftype) (fdefault: "pyval option")

definition settings_fields :: "field_info list" where
  "settings_fields =
   [ Field ''app_name'' TStr (Some (PStr ''CLOS Orchestrator'')),
     Field ''app_version'' TStr (Some (PStr ''1.0.0'')),
     Field ''environment'' TStr (Some (PStr ''development'')),
     Field ''debug'' TBool (Some (PBool False)),
     Field ''secret_key'' TStr None,
     Field ''jwt_secret'' TStr None,
     Field ''jwt_algorithm'' TStr (Some (PStr ''HS256'')),
     Field ''jwt_expiration_minutes'' TInt (Some (PInt 30)),
     Field ''host'' TStr (Some (PStr ''0.0.0.0'')),
     Field ''port'' TInt (Some (PInt 8000)),
     Field ''workers'' TInt (Some (PInt 4)),
     Field ''reload'' TBool (Some (PBool False)),
     Field ''database_url'' TStr None,
     Field ''database_pool_size'' TInt (Some (PInt 20)),
     Field ''database_max_overflow'' TInt (Some (PInt 40)),
     Field ''database_pool_timeout'' TInt (Some (PInt 30)),
     Field ''database_echo'' TBool (Some (PBool False)),
     Field ''redis_url'' TStr None,
     Field ''redis_pool_size'' TInt (Some (PInt 10)),
     Field ''redis_decode_responses'' TBool (Some (PBool True)),
     Field ''aws_region'' TStr (Some (PStr ''us-east-1'')),
     Field ''aws_account_id'' TOptStr (Some PNone),
     Field ''aws_access_key_id'' TOptStr (Some PNone),
     Field ''aws_secret_access_key'' TOptStr (Some PNone),
     Field ''aws_endpoint_url'' TOptStr (Some PNone),
     Field ''s3_bucket_assets'' TStr (Some (PStr ''candlefish-assets'')),
     Field ''s3_bucket_backups'' TStr (Some (PStr ''candlefish-backups'')),
     Field ''anthropic_api_key'' TOptStr (Some PNone),
     Field ''openai_api_key'' TOptStr (Some PNone),
     Field ''agent_timeout'' TInt (Some (PInt 300)),
     Field ''agent_max_retries'' TInt (Some (PInt 3)),
     Field ''agent_retry_delay'' TInt (Some (PInt 5)),
     Field ''new_relic_license_key'' TOptStr (Some PNone),
     Field ''new_relic_app_name'' TStr (Some (PStr ''CLOS Orchestrator'')),
     Field ''datadog_api_key'' TOptStr (Some PNone),
     Field ''sentry_dsn'' TOptStr (Some PNone),
     Field ''enable_agent_logging'' TBool (Some (PBool True)),
     Field ''enable_performance_monitoring'' TBool (Some (PBool False)),
     Field ''enable_rate_limiting'' TBool (Some (PBool True)),
     Field ''rate_limit_requests'' TInt (Some (PInt 100)),
     Field ''rate_limit_period'' TInt (Some (PInt 60)),
     Field ''cors_origins'' TListStr
       (Some (PList [PStr ''http://localhost:3000'', PStr ''http://localhost:8000''])),
     Field ''cors_allow_credentials'' TBool (Some (PBool True)),
     Field ''cors_allow_methods'' TListStr (Some (PList [PStr ''*''])),
     Field ''cors_allow_headers'' TListStr (Some (PList [PStr ''*''])) ]"

text \<open>The settings object: one attribute per declaration, with the annotated type.\<close>

record Settings =
  app_name :: string
  app_version :: string
  environment :: string
  debug :: bool
  secret_key :: string
  jwt_secret :: string
  jwt_algorithm :: string
  jwt_expiration_minutes :: int
  host :: string
  port :: int
  workers :: int
  reload :: bool
  database_url :: string
  database_pool_size :: int
  database_max_overflow :: int
  database_pool_timeout :: int
  database_echo :: bool
  redis_url :: string
  redis_pool_size :: int
  redis_decode_responses :: bool
  aws_region :: string
  aws_account_id :: "string option"
  aws_access_key_id :: "string option"
  aws_secret_access_key :: "string option"
  aws_endpoint_url :: "string option"
  s3_bucket_assets :: string
  s3_bucket_backups :: string
  anthropic_api_key :: "string option"
  openai_api_key :: "string option"
  agent_timeout :: int
  agent_max_retries :: int
  agent_retry_delay :: int
  new_relic_license_key :: "string option"
  new_relic_app_name :: string
  datadog_api_key :: "string option"
  sentry_dsn :: "string option"
  enable_agent_logging :: bool
  enable_performance_monitoring :: bool
  enable_rate_limiting :: bool
  rate_limit_requests :: int
  rate_limit_period :: int
  cors_origins :: "string list"
  cors_allow_credentials :: bool
  cors_allow_methods :: "string list"
  cors_allow_headers :: "string list"

text \<open>
  \<^verbatim>\<open>
  @property
  def is_production(self) -> bool:
      return self.environment == "production"
  \<close>
  and likewise for development and testing.
\<close>

definition is_production :: "Settings \<Rightarrow> bool" where
  "is_production s = (environment s = ''production'')"

definition is_development :: "Settings \<Rightarrow> bool" where
  "is_development s = (environment s = ''development'')"

definition is_testing :: "Settings \<Rightarrow> bool" where
  "is_testing s = (environment s = ''testing'')"

subsection \<open>Constructing the settings object\<close>

text \<open>
  \<^verbatim>\<open>settings = Settings()\<close> hands the class body to the settings framework, which
  resolves every declared field from its sources. The sources are a partial map from field
  names to the values found for them (after the framework has decoded the environment's
  text); names that are no field are never looked at. For each field:
  \<^item> no value and no default: the field is reported missing;
  \<^item> no value, a default: the default is taken as it is, without validation;
  \<^item> a value: the \<^verbatim>\<open>pre=True\<close> validator of the field runs on the raw value, then
    the value is checked against the annotated type, then the field's validator runs.
  Values of exactly the annotated type are accepted unchanged; the lenient conversions of the
  framework (such as a numeral given as text for an \<^verbatim>\<open>int\<close> field) are outside this
  model, which reports them as type errors.
  All errors are collected; construction raises one validation error holding them if there
  is any, and otherwise returns the object.
\<close>

type_synonym sources = "string \<rightharpoonup> pyval"

datatype config_error =
    Missing string
  | TypeError string
  | ValueError string string

definition pre_validator :: "string \<Rightarrow> pyval \<Rightarrow> pyval" where
  "pre_validator name v = (if name = ''cors_origins'' then parse_cors_origins v else v)"

fun is_str :: "pyval \<Rightarrow> bool" where
  "is_str (PStr s) = True"
| "is_str v = False"

fun has_type :: "ftype \<Rightarrow> pyval \<Rightarrow> bool" where
  "has_type TStr v = is_str v"
| "has_type TInt (PInt i) = True"
| "has_type TBool (PBool b) = True"
| "has_type TOptStr PNone = True"
| "has_type TOptStr v = is_str v"
| "has_type TListStr (PList vs) = list_all is_str vs"
| "has_type t v = False"

fun raise_for :: "string \<Rightarrow> string + string \<Rightarrow> config_error + pyval" where
  "raise_for name (Inl msg) = Inl (ValueError name msg)"
| "raise_for name (Inr v) = Inr (PStr v)"

fun validator :: "string \<Rightarrow> pyval \<Rightarrow> config_error + pyval" where
  "validator name (PStr v) =
     (if name = ''database_url'' then raise_for name (validate_database_url v)
      else if name = ''redis_url'' then raise_for name (validate_redis_url v)
      else Inr (PStr v))"
| "validator name v = Inr v"

definition field_value :: "sources \<Rightarrow> field_info \<Rightarrow> config_error + pyval" where
  "field_value src f =
     (case src (fname f) of
        None \<Rightarrow>
          (case fdefault f of
             None \<Rightarrow> Inl (Missing (fname f))
           | Some d \<Rightarrow> Inr d)
      | Some raw \<Rightarrow>
          (let v = pre_validator (fname f) raw
           in if has_type (ftype f) v then validator (fname f) v
              else Inl (TypeError (fname f))))"

definition validation_errors :: "sources \<Rightarrow> config_error list" where
  "validation_errors src =
     concat (map (\<lambda>f. case field_value src f of Inl e \<Rightarrow> [e] | Inr v \<Rightarrow> []) settings_fields)"

definition validated :: "sources \<Rightarrow> string \<Rightarrow> pyval option" where
  "validated src name =
     (case find (\<lambda>f. fname f = name) settings_fields of
        None \<Rightarrow> None
      | Some f \<Rightarrow> (case field_value src f of Inl e \<Rightarrow> None | Inr v \<Rightarrow> Some v))"

text \<open>
  Reading a validated value at its annotated type. The last equation of each reader is
  never used on a field of a settings object that was constructed: there every declared
  field holds a value of its annotated type (lemma \<open>validated_has_type\<close> below).
\<close>

fun as_str :: "pyval option \<Rightarrow> string" where
  "as_str (Some (PStr s)) = s"
| "as_str v = []"

fun as_int :: "pyval option \<Rightarrow> int" where
  "as_int (Some (PInt i)) = i"
| "as_int v = 0"

fun as_bool :: "pyval option \<Rightarrow> bool" where
  "as_bool (Some (PBool b)) = b"
| "as_bool v = False"

fun as_opt_str :: "pyval option \<Rightarrow> string option" where
  "as_opt_str (Some (PStr s)) = Some s"
| "as_opt_str v = None"

fun as_str_list :: "pyval option \<Rightarrow> string list" where
  "as_str_list (Some (PList vs)) = map (\<lambda>v. as_str (Some v)) vs"
| "as_str_list v = []"

definition from_validated :: "(string \<Rightarrow> pyval option) \<Rightarrow> Settings" where
  "from_validated d =
   \<lparr> app_name = as_str (d ''app_name''),
     app_version = as_str (d ''app_version''),
     environment = as_str (d ''environment''),
     debug = as_bool (d ''debug''),
     secret_key = as_str (d ''secret_key''),
     jwt_secret = as_str (d ''jwt_secret''),
     jwt_algorithm = as_str (d ''jwt_algorithm''),
     jwt_expiration_minutes = as_int (d ''jwt_expiration_minutes''),
     host = as_str (d ''host''),
     port = as_int (d ''port''),
     workers = as_int (d ''workers''),
     reload = as_bool (d ''reload''),
     database_url = as_str (d ''database_url''),
     database_pool_size = as_int (d ''database_pool_size''),
     database_max_overflow = as_int (d ''database_max_overflow''),
     database_pool_timeout = as_int (d ''database_pool_timeout''),
     database_echo = as_bool (d ''database_echo''),
     redis_url = as_str (d ''redis_url''),
     redis_pool_size = as_int (d ''redis_pool_size''),
     redis_decode_responses = as_bool (d ''redis_decode_responses''),
     aws_region = as_str (d ''aws_region''),
     aws_account_id = as_opt_str (d ''aws_account_id''),
     aws_access_key_id = as_opt_str (d ''aws_access_key_id''),
     aws_secret_access_key = as_opt_str (d ''aws_secret_access_key''),
     aws_endpoint_url = as_opt_str (d ''aws_endpoint_url''),
     s3_bucket_assets = as_str (d ''s3_bucket_assets''),
     s3_bucket_backups = as_str (d ''s3_bucket_backups''),
     anthropic_api_key = as_opt_str (d ''anthropic_api_key''),
     openai_api_key = as_opt_str (d ''openai_api_key''),
     agent_timeout = as_int (d ''agent_timeout''),
     agent_max_retries = as_int (d ''agent_max_retries''),
     agent_retry_delay = as_int (d ''agent_retry_delay''),
     new_relic_license_key = as_opt_str (d ''new_relic_license_key''),
     new_relic_app_name = as_str (d ''new_relic_app_name''),
     datadog_api_key = as_opt_str (d ''datadog_api_key''),
     sentry_dsn = as_opt_str (d ''sentry_dsn''),
     enable_agent_logging = as_bool (d ''enable_agent_logging''),
     enable_performance_monitoring = as_bool (d ''enable_performance_monitoring''),
     enable_rate_limiting = as_bool (d ''enable_rate_limiting''),
     rate_limit_requests = as_int (d ''rate_limit_requests''),
     rate_limit_period = as_int (d ''rate_limit_period''),
     cors_origins = as_str_list (d ''cors_origins''),
     cors_allow_credentials = as_bool (d ''cors_allow_credentials''),
     cors_allow_methods = as_str_list (d ''cors_allow_methods''),
     cors_allow_headers = as_str_list (d ''cors_allow_headers'') \<rparr>"

definition Settings_init :: "sources \<Rightarrow> config_error list + Settings" where
  "Settings_init src =
     (let errors = validation_errors src
      in if errors \<noteq> [] then Inl errors else Inr (from_validated (validated src)))"

text \<open>A name is that of an integer field if it is declared, and declared only as \<^verbatim>\<open>int\<close>.\<close>

definition int_field :: "string \<Rightarrow> bool" where
  "int_field name \<longleftrightarrow>
     (\<exists>f\<in>set settings_fields. fname f = name) \<and>
     (\<forall>f\<in>set settings_fields. fname f = name \<longrightarrow> ftype f = TInt)"

section \<open>Application: \<^verbatim>\<open>clos/orchestrator/app.py\<close>\<close>

subsection \<open>Calls into collaborators\<close>

text \<open>
  The lifespan manager calls functions of modules that are collaborators of this one
  (logging and monitoring set-up, the database, the cache, the agent pool). A call either
  returns or raises; which of the two is not decided here, so it is a parameter: the
  \<open>outcomes\<close> give, for each call, the exception it raises, if any. An exception is known
  by \<^verbatim>\<open>type(exc).__name__\<close> and \<^verbatim>\<open>str(exc)\<close>.

  \<open>Yield\<close> is the \<^verbatim>\<open>yield\<close> of the context manager: the application serves until
  it is told to stop; an exception thrown into the generator at that point is the outcome
  of \<open>Yield\<close>.
\<close>

datatype exception = Exception (type_name: string) (str: string)

datatype call =
    SetupLogging
  | InitMonitoring
  | InitDb
  | InitRedis string
  | InitAgentPool
  | Yield
  | CloseDb
  | CloseRedis
  | ShutdownAgentPool

type_synonym outcomes = "call \<Rightarrow> exception option"

datatype event =
    Info string
  | Error string exception string string
  | Call call

text \<open>
  A run is the sequence of events so far and the exception that is propagating, if any.
  Python skips every statement after a raise (the code has no \<^verbatim>\<open>try\<close>), so each
  statement acts only while no exception is propagating.
\<close>

record run =
  trace :: "event list"
  raised :: "exception option"

definition info :: "string \<Rightarrow> run \<Rightarrow> run" where
  "info msg r = (if raised r = None then r\<lparr>trace := trace r @ [Info msg]\<rparr> else r)"

definition do_call :: "outcomes \<Rightarrow> call \<Rightarrow> run \<Rightarrow> run" where
  "do_call w c r =
     (if raised r = None then r\<lparr>trace := trace r @ [Call c], raised := w c\<rparr> else r)"

subsection \<open>The lifespan manager\<close>

text \<open>
  \<^verbatim>\<open>
  logger.info("Starting CLOS Orchestrator", environment=settings.environment)
  setup_logging(settings)
  if settings.enable_performance_monitoring:
      init_monitoring(settings)
  await init_db()
  await init_redis(settings.redis_url)
  await init_agent_pool()
  logger.info("CLOS Orchestrator started successfully")
  yield
  logger.info("Shutting down CLOS Orchestrator")
  await close_db()
  await close_redis()
  await shutdown_agent_pool()
  logger.info("CLOS Orchestrator shutdown complete")
  \<close>
\<close>

definition lifespan_startup :: "outcomes \<Rightarrow> Settings \<Rightarrow> run \<Rightarrow> run" where
  "lifespan_startup w s r =
     (let r = info ''Starting CLOS Orchestrator'' r;
          r = do_call w SetupLogging r;
          r = (if enable_performance_monitoring s then do_call w InitMonitoring r else r);
          r = do_call w InitDb r;
          r = do_call w (InitRedis (redis_url s)) r;
          r = do_call w InitAgentPool r
      in info ''CLOS Orchestrator started successfully'' r)"

definition lifespan_shutdown :: "outcomes \<Rightarrow> run \<Rightarrow> run" where
  "lifespan_shutdown w r =
     (let r = info ''Shutting down CLOS Orchestrator'' r;
          r = do_call w CloseDb r;
          r = do_call w CloseRedis r;
          r = do_call w ShutdownAgentPool r
      in info ''CLOS Orchestrator shutdown complete'' r)"

definition lifespan :: "outcomes \<Rightarrow> Settings \<Rightarrow> run" where
  "lifespan w s =
     (let r = lifespan_startup w s \<lparr>trace = [], raised = None\<rparr>;
          r = do_call w Yield r
      in lifespan_shutdown w r)"

text \<open>
  The three resources, and which of them the calls of a run started (tried to start) and
  stopped (tried to stop), in the order of the calls.
\<close>

datatype resource = Database | Redis | AgentPool

fun calls_of :: "event list \<Rightarrow> call list" where
  "calls_of [] = []"
| "calls_of (Call c # es) = c # calls_of es"
| "calls_of (e # es) = calls_of es"

fun start_of :: "call \<Rightarrow> resource list" where
  "start_of InitDb = [Database]"
| "start_of (InitRedis url) = [Redis]"
| "start_of InitAgentPool = [AgentPool]"
| "start_of c = []"

fun stop_of :: "call \<Rightarrow> resource list" where
  "stop_of CloseDb = [Database]"
| "stop_of CloseRedis = [Redis]"
| "stop_of ShutdownAgentPool = [AgentPool]"
| "stop_of c = []"

definition starts :: "run \<Rightarrow> resource list" where
  "starts r = concat (map start_of (calls_of (trace r)))"

definition stops :: "run \<Rightarrow> resource list" where
  "stops r = concat (map stop_of (calls_of (trace r)))"

subsection \<open>The global exception handler\<close>

text \<open>
  \<^verbatim>\<open>
  logger.error("Unhandled exception", exc_info=exc,
               path=request.url.path, method=request.method)
  if settings.is_production:
      return JSONResponse(status_code=500, content={"detail": "Internal server error"})
  else:
      return JSONResponse(status_code=500,
                          content={"detail": str(exc), "type": type(exc).__name__})
  \<close>
  The handler returns the log entry it wrote and the response.
\<close>

record Request =
  http_method :: string
  path :: string

record JSONResponse =
  status_code :: nat
  content :: "(string \<times> string) list"

definition global_exception_handler ::
  "Settings \<Rightarrow> Request \<Rightarrow> exception \<Rightarrow> event \<times> JSONResponse" where
  "global_exception_handler s request exc =
     (Error ''Unhandled exception'' exc (path request) (http_method request),
      if is_production s
      then \<lparr>status_code = 500, content = [(''detail'', ''Internal server error'')]\<rparr>
      else \<lparr>status_code = 500, content = [(''detail'', str exc), (''type'', type_name exc)]\<rparr>)"

subsection \<open>Assembling the application\<close>

datatype middleware =
    CORSMiddleware (allow_origins: "string list") (allow_credentials: bool)
      (allow_methods: "string list") (allow_headers: "string list")
  | TrustedHostMiddleware (allowed_hosts: "string list")
  | LoggingMiddleware
  | MetricsMiddleware
  | RateLimitMiddleware (requests_per_minute: int)

record router_entry =
  router :: string
  prefix :: string
  tags :: "string list"

record FastAPI =
  title :: string
  version :: string
  description :: string
  docs_url :: "string option"
  redoc_url :: "string option"
  openapi_url :: "string option"
  user_middleware :: "middleware list"
  mounts :: "string list"
  routers :: "router_entry list"
  exception_handler :: "(Request \<Rightarrow> exception \<Rightarrow> event \<times> JSONResponse) option"

text \<open>
  Modelled from the spec: \<^verbatim>\<open>add_middleware\<close> belongs to the web framework, which is
  not part of the repository. The specification gives its rule: middleware registered later
  runs outermost. So the list of registered middleware is kept outermost first, and a
  registration puts the new middleware at the front.
\<close>

definition add_middleware :: "middleware \<Rightarrow> FastAPI \<Rightarrow> FastAPI" where
  "add_middleware m app = app\<lparr>user_middleware := m # user_middleware app\<rparr>"

definition mount :: "string \<Rightarrow> FastAPI \<Rightarrow> FastAPI" where
  "mount p app = app\<lparr>mounts := mounts app @ [p]\<rparr>"

definition include_router :: "string \<Rightarrow> string \<Rightarrow> string list \<Rightarrow> FastAPI \<Rightarrow> FastAPI" where
  "include_router r p ts app =
     app\<lparr>routers := routers app @ [\<lparr>router = r, prefix = p, tags = ts\<rparr>]\<rparr>"

text \<open>
  \<open>create_app\<close> follows the function of the same name statement by statement: the
  constructor call (whose \<^verbatim>\<open>lifespan\<close> argument is the manager above), the
  registrations
  \<^verbatim>\<open>
  app.add_middleware(CORSMiddleware, allow_origins=settings.cors_origins, ...)
  app.add_middleware(TrustedHostMiddleware,
      allowed_hosts=["*"] if settings.is_development else ["*.candlefish.ai", "localhost"])
  app.add_middleware(LoggingMiddleware)
  app.add_middleware(MetricsMiddleware)
  if settings.enable_rate_limiting:
      app.add_middleware(RateLimitMiddleware, requests_per_minute=settings.rate_limit_requests)
  \<close>
  the mount of the metrics endpoint, the five routers, and the exception handler.
\<close>

definition create_app :: "Settings \<Rightarrow> FastAPI" where
  "create_app s =
     (let app = \<lparr> title = app_name s,
                  version = app_version s,
                  description = ''Central orchestration platform for AI-powered applications'',
                  docs_url = (if \<not> is_production s then Some ''/docs'' else None),
                  redoc_url = (if \<not> is_production s then Some ''/redoc'' else None),
                  openapi_url = (if \<not> is_production s then Some ''/openapi.json'' else None),
                  user_middleware = [],
                  mounts = [],
                  routers = [],
                  exception_handler = None \<rparr>;
          app = add_middleware
                  (CORSMiddleware (cors_origins s) (cors_allow_credentials s)
                     (cors_allow_methods s) (cors_allow_headers s)) app;
          app = add_middleware
                  (TrustedHostMiddleware
                     (if is_development s then [''*''] else [''*.candlefish.ai'', ''localhost'']))
                  app;
          app = add_middleware LoggingMiddleware app;
          app = add_middleware MetricsMiddleware app;
          app = (if enable_rate_limiting s
                 then add_middleware (RateLimitMiddleware (rate_limit_requests s)) app
                 else app);
          app = mount ''/metrics'' app;
          app = include_router ''health'' [] [''health''] app;
          app = include_router ''auth'' ''/api/v1/auth'' [''authentication''] app;
          app = include_router ''agents'' ''/api/v1/agents'' [''agents''] app;
          app = include_router ''workflows'' ''/api/v1/workflows'' [''workflows''] app;
          app = include_router ''services'' ''/api/v1/services'' [''services''] app
      in app\<lparr>exception_handler := Some (global_exception_handler s)\<rparr>)"

text \<open>
  The stages a request goes through, outermost first: the registered middleware in the
  order the framework runs it, then the dispatch to the routers.
\<close>

datatype stage =
    HostValidation
  | CorsPolicy
  | RequestLogging
  | MetricsRecording
  | RateLimiting
  | RouterDispatch

fun stage_of :: "middleware \<Rightarrow> stage" where
  "stage_of (CORSMiddleware os cr ms hs) = CorsPolicy"
| "stage_of (TrustedHostMiddleware hs) = HostValidation"
| "stage_of LoggingMiddleware = RequestLogging"
| "stage_of MetricsMiddleware = MetricsRecording"
| "stage_of (RateLimitMiddleware n) = RateLimiting"

definition request_stages :: "FastAPI \<Rightarrow> stage list" where
  "request_stages app = map stage_of (user_middleware app) @ [RouterDispatch]"

section \<open>Notions of the specification\<close>

text \<open>
  The specification speaks of the scheme of a URL: the text before the first colon
  (\<^verbatim>\<open>postgresql\<close> in \<^verbatim>\<open>postgresql://host/db\<close>). The code never computes it; it
  compares prefixes.
\<close>

definition url_scheme :: "string \<Rightarrow> string" where
  "url_scheme v = takeWhile (\<lambda>c. c \<noteq> CHR '':'') v"

text \<open>The order of stages the specification gives for a request.\<close>

definition specified_stages :: "stage list" where
  "specified_stages =
     [HostValidation, CorsPolicy, RequestLogging, MetricsRecording, RateLimiting,
      RouterDispatch]"

section \<open>Concrete inputs\<close>

text \<open>
  Sources that give the four required fields and nothing else, and the settings object they
  resolve to (every other field at its default).
\<close>

definition example_sources :: sources where
  "example_sources =
     [''secret_key'' \<mapsto> PStr ''not-a-real-secret'',
      ''jwt_secret'' \<mapsto> PStr ''not-a-real-jwt-secret'',
      ''database_url'' \<mapsto> PStr ''postgresql://localhost/clos'',
      ''redis_url'' \<mapsto> PStr ''redis://localhost:6379'']"

definition example_settings :: Settings where
  "example_settings =
   \<lparr> app_name = ''CLOS Orchestrator'',
     app_version = ''1.0.0'',
     environment = ''development'',
     debug = False,
     secret_key = ''not-a-real-secret'',
     jwt_secret = ''not-a-real-jwt-secret'',
     jwt_algorithm = ''HS256'',
     jwt_expiration_minutes = 30,
     host = ''0.0.0.0'',
     port = 8000,
     workers = 4,
     reload = False,
     database_url = ''postgresql://localhost/clos'',
     database_pool_size = 20,
     database_max_overflow = 40,
     database_pool_timeout = 30,
     database_echo = False,
     redis_url = ''redis://localhost:6379'',
     redis_pool_size = 10,
     redis_decode_responses = True,
     aws_region = ''us-east-1'',
     aws_account_id = None,
     aws_access_key_id = None,
     aws_secret_access_key = None,
     aws_endpoint_url = None,
     s3_bucket_assets = ''candlefish-assets'',
     s3_bucket_backups = ''candlefish-backups'',
     anthropic_api_key = None,
     openai_api_key = None,
     agent_timeout = 300,
     agent_max_retries = 3,
     agent_retry_delay = 5,
     new_relic_license_key = None,
     new_relic_app_name = ''CLOS Orchestrator'',
     datadog_api_key = None,
     sentry_dsn = None,
     enable_agent_logging = True,
     enable_performance_monitoring = False,
     enable_rate_limiting = True,
     rate_limit_requests = 100,
     rate_limit_period = 60,
     cors_origins = [''http://localhost:3000'', ''http://localhost:8000''],
     cors_allow_credentials = True,
     cors_allow_methods = [''*''],
     cors_allow_headers = [''*''] \<rparr>"

text \<open>Outcomes: every call returns; and every call returns except one, which raises.\<close>

definition all_return :: outcomes where
  "all_return = (\<lambda>c. None)"

definition raises_at :: "call \<Rightarrow> exception \<Rightarrow> outcomes" where
  "raises_at c e = (\<lambda>c'. if c' = c then Some e else None)"

definition connection_error :: exception where
  "connection_error = Exception ''ConnectionError'' ''connection refused''"

section \<open>Strings: prefixes, splitting and joining\<close>

lemma startswith_iff: "startswith s p \<longleftrightarrow> (\<exists>r. s = p @ r)"
  by (induction s p rule: startswith.induct) auto

lemma split_from_nonempty: "split_from sep acc s \<noteq> []"
  by (induction s arbitrary: acc) auto

lemma str_join_Cons: "ps \<noteq> [] \<Longrightarrow> str_join sep (p # ps) = p @ sep # str_join sep ps"
  by (cases ps) auto

lemma join_split_from: "str_join sep (split_from sep acc s) = rev acc @ s"
  by (induction s arbitrary: acc) (auto simp: str_join_Cons split_from_nonempty)

lemma split_from_no_sep:
  "sep \<notin> set acc \<Longrightarrow> \<forall>p\<in>set (split_from sep acc s). sep \<notin> set p"
proof (induction s arbitrary: acc)
  case Nil
  then show ?case by simp
next
  case (Cons c cs)
  show ?case
  proof (cases "c = sep")
    case True
    have "\<forall>p\<in>set (split_from sep [] cs). sep \<notin> set p"
      using Cons.IH [of "[]"] by simp
    with True Cons.prems show ?thesis by simp
  next
    case False
    then have "sep \<notin> set (c # acc)"
      using Cons.prems by auto
    then have "\<forall>p\<in>set (split_from sep (c # acc) cs). sep \<notin> set p"
      by (rule Cons.IH)
    with False show ?thesis by simp
  qed
qed

lemma length_split_from: "length (split_from sep acc s) = Suc (count_list s sep)"
  by (induction s arbitrary: acc) auto

section \<open>The origins parser\<close>

text \<open>
  Claim C10. Given the empty string, \<open>parse_cors_origins\<close> returns the list whose only
  element is the empty string; given any string, it never returns the empty list.
\<close>

theorem parse_cors_origins_never_empty:
  "parse_cors_origins (PStr '''') = PList [PStr ''''] \<and>
   (\<forall>s. parse_cors_origins (PStr s) \<noteq> PList [])"
  by (simp add: str_split_def split_from_nonempty)

text \<open>
  Claim C8, as stated, says that a string is parsed into a collection without duplicates.
  It is not: the string \<^verbatim>\<open>a,a\<close> is parsed into a list that holds \<^verbatim>\<open>a\<close> twice.
\<close>

theorem parse_cors_origins_keeps_duplicates:
  "parse_cors_origins (PStr ''a,a'') = PList [PStr ''a'', PStr ''a''] \<and>
   \<not> distinct [PStr ''a'', PStr ''a'']"
  by (simp add: str_split_def)

text \<open>
  Claim C8, amended. Given a string, \<open>parse_cors_origins\<close> returns the list of its pieces
  between commas, in the order of the text and with repeated pieces kept: joining the pieces
  with commas gives the string back, there is one piece more than there are commas, and no
  piece contains a comma. A value that is not a string is returned as it is.
\<close>

theorem parse_cors_origins_split:
  "parse_cors_origins (PStr v) = PList (map PStr (str_split v CHR '','')) \<and>
   str_join CHR '','' (str_split v CHR '','') = v \<and>
   length (str_split v CHR '','') = Suc (count_list v CHR '','') \<and>
   (\<forall>p\<in>set (str_split v CHR '',''). CHR '','' \<notin> set p) \<and>
   (\<not> is_str x \<longrightarrow> parse_cors_origins x = x)"
proof -
  have "\<not> is_str x \<longrightarrow> parse_cors_origins x = x"
    by (cases x) simp_all
  moreover have "\<forall>p\<in>set (str_split v CHR '',''). CHR '','' \<notin> set p"
    unfolding str_split_def by (rule split_from_no_sep) simp
  ultimately show ?thesis
    by (simp add: str_split_def join_split_from length_split_from)
qed

theorem parse_cors_origins_split_witness:
  "parse_cors_origins (PStr ''a,b,a'') = PList [PStr ''a'', PStr ''b'', PStr ''a''] \<and>
   str_join CHR '','' [''a'', ''b'', ''a''] = ''a,b,a'' \<and>
   \<not> is_str (PList [PStr ''a'', PStr ''a'']) \<and>
   parse_cors_origins (PList [PStr ''a'', PStr ''a'']) = PList [PStr ''a'', PStr ''a'']"
  using parse_cors_origins_split [of "''a,b,a''" "PList [PStr ''a'', PStr ''a'']"]
  by (simp add: str_split_def)

section \<open>Construction of the settings object\<close>

lemma Settings_init_Inl:
  "Settings_init src = Inl errs \<longleftrightarrow> errs = validation_errors src \<and> errs \<noteq> []"
  by (auto simp: Settings_init_def Let_def)

lemma Settings_init_Inr:
  "Settings_init src = Inr s \<longleftrightarrow>
     validation_errors src = [] \<and> s = from_validated (validated src)"
  by (auto simp: Settings_init_def Let_def)

lemma field_error_collected:
  "f \<in> set settings_fields \<Longrightarrow> field_value src f = Inl e \<Longrightarrow> e \<in> set (validation_errors src)"
  unfolding validation_errors_def by force

lemma field_error_fails:
  assumes "f \<in> set settings_fields" and "field_value src f = Inl e"
  shows "\<exists>errs. Settings_init src = Inl errs \<and> e \<in> set errs"
proof -
  have "e \<in> set (validation_errors src)"
    using assms by (rule field_error_collected)
  then show ?thesis
    by (auto simp: Settings_init_Inl)
qed

lemma no_errors_field:
  "validation_errors src = [] \<Longrightarrow> f \<in> set settings_fields \<Longrightarrow> \<exists>v. field_value src f = Inr v"
  unfolding validation_errors_def by (cases "field_value src f") (auto split: sum.splits)

subsection \<open>The URL validators\<close>

lemma url_scheme_postgresql: "startswith v ''postgresql://'' \<Longrightarrow> url_scheme v = ''postgresql''"
  by (auto simp: startswith_iff url_scheme_def)

lemma url_scheme_postgres: "startswith v ''postgres://'' \<Longrightarrow> url_scheme v = ''postgres''"
  by (auto simp: startswith_iff url_scheme_def)

lemma database_url_error:
  assumes "src ''database_url'' = Some (PStr db)"
    and "url_scheme db \<notin> {''postgresql'', ''postgres''}"
  shows "field_value src (Field ''database_url'' TStr None) =
           Inl (ValueError ''database_url'' ''Database URL must be a PostgreSQL connection string'')"
proof -
  have "\<not> startswith_any db [''postgresql://'', ''postgres://'']"
    using assms(2) url_scheme_postgresql [of db] url_scheme_postgres [of db]
    by (auto simp: startswith_any_def)
  then show ?thesis
    using assms(1) by (simp add: field_value_def pre_validator_def validate_database_url_def)
qed

lemma redis_url_error:
  assumes "src ''redis_url'' = Some (PStr rd)" and "\<not> startswith rd ''redis://''"
  shows "field_value src (Field ''redis_url'' TStr None) =
           Inl (ValueError ''redis_url'' ''Redis URL must start with redis://'')"
  using assms by (simp add: field_value_def pre_validator_def validate_redis_url_def)

text \<open>
  Claim C5. Whenever the database URL given has a scheme other than \<^verbatim>\<open>postgresql\<close> and
  \<^verbatim>\<open>postgres\<close>, or the Redis URL given does not start with \<^verbatim>\<open>redis://\<close>, constructing
  the settings object fails: the result is the error side, which holds the \<^verbatim>\<open>ValueError\<close>
  of the validator concerned, and no settings object is returned.
\<close>

theorem invalid_url_rejected:
  assumes "(src ''database_url'' = Some (PStr db) \<and> url_scheme db \<notin> {''postgresql'', ''postgres''})
         \<or> (src ''redis_url'' = Some (PStr rd) \<and> \<not> startswith rd ''redis://'')"
  shows "\<exists>errs. Settings_init src = Inl errs \<and>
           (ValueError ''database_url'' ''Database URL must be a PostgreSQL connection string''
              \<in> set errs
            \<or> ValueError ''redis_url'' ''Redis URL must start with redis://'' \<in> set errs)"
  using assms
proof
  assume a: "src ''database_url'' = Some (PStr db) \<and> url_scheme db \<notin> {''postgresql'', ''postgres''}"
  have "Field ''database_url'' TStr None \<in> set settings_fields"
    by (simp add: settings_fields_def)
  from field_error_fails [OF this database_url_error] a show ?thesis by blast
next
  assume a: "src ''redis_url'' = Some (PStr rd) \<and> \<not> startswith rd ''redis://''"
  have "Field ''redis_url'' TStr None \<in> set settings_fields"
    by (simp add: settings_fields_def)
  from field_error_fails [OF this redis_url_error] a show ?thesis by blast
qed

theorem invalid_url_rejected_witness:
  "(example_sources(''database_url'' \<mapsto> PStr ''mysql://localhost/clos'')) ''database_url'' =
      Some (PStr ''mysql://localhost/clos'') \<and>
   url_scheme ''mysql://localhost/clos'' \<notin> {''postgresql'', ''postgres''} \<and>
   (example_sources(''redis_url'' \<mapsto> PStr ''http://localhost'')) ''redis_url'' =
      Some (PStr ''http://localhost'') \<and>
   \<not> startswith ''http://localhost'' ''redis://'' \<and>
   (\<exists>errs. Settings_init (example_sources(''database_url'' \<mapsto> PStr ''mysql://localhost/clos''))
             = Inl errs) \<and>
   (\<exists>errs. Settings_init (example_sources(''redis_url'' \<mapsto> PStr ''http://localhost''))
             = Inl errs)"
proof -
  have h: "url_scheme ''mysql://localhost/clos'' \<notin> {''postgresql'', ''postgres''}"
    by (simp add: url_scheme_def)
  show ?thesis
    using h
      invalid_url_rejected [of "example_sources(''database_url'' \<mapsto> PStr ''mysql://localhost/clos'')"
        "''mysql://localhost/clos''" "''''"]
      invalid_url_rejected [of "example_sources(''redis_url'' \<mapsto> PStr ''http://localhost'')"
        "''''" "''http://localhost''"]
    by auto
qed

subsection \<open>Required fields\<close>

lemma missing_required:
  assumes "name \<in> set [''secret_key'', ''jwt_secret'', ''database_url'', ''redis_url'']"
    and "src name = None"
  shows "\<exists>errs. Settings_init src = Inl errs \<and> Missing name \<in> set errs"
proof -
  have "Field name TStr None \<in> set settings_fields"
    using assms(1) by (auto simp: settings_fields_def)
  moreover have "field_value src (Field name TStr None) = Inl (Missing name)"
    using assms(2) by (simp add: field_value_def)
  ultimately show ?thesis by (rule field_error_fails)
qed

text \<open>
  Claim C6. The fields declared without a default are exactly \<^verbatim>\<open>secret_key\<close>,
  \<^verbatim>\<open>jwt_secret\<close>, \<^verbatim>\<open>database_url\<close> and \<^verbatim>\<open>redis_url\<close>; whenever the sources give no
  value for one of them, constructing the settings object fails, reporting that field as
  missing, and no settings object is returned.
\<close>

theorem required_fields_missing_rejected:
  "map fname (filter (\<lambda>f. fdefault f = None) settings_fields) =
     [''secret_key'', ''jwt_secret'', ''database_url'', ''redis_url''] \<and>
   (\<forall>name\<in>set [''secret_key'', ''jwt_secret'', ''database_url'', ''redis_url''].
      src name = None \<longrightarrow> (\<exists>errs. Settings_init src = Inl errs \<and> Missing name \<in> set errs))"
proof -
  have "map fname (filter (\<lambda>f. fdefault f = None) settings_fields) =
     [''secret_key'', ''jwt_secret'', ''database_url'', ''redis_url'']"
    by (simp add: settings_fields_def)
  then show ?thesis using missing_required by blast
qed

theorem required_fields_missing_rejected_witness:
  "''secret_key'' \<in> set [''secret_key'', ''jwt_secret'', ''database_url'', ''redis_url''] \<and>
   (example_sources(''secret_key'' := None)) ''secret_key'' = None \<and>
   (\<exists>errs. Settings_init (example_sources(''secret_key'' := None)) = Inl errs \<and>
           Missing ''secret_key'' \<in> set errs)"
  using required_fields_missing_rejected [of "example_sources(''secret_key'' := None)"]
  by simp

subsection \<open>Integer fields\<close>

lemma field_value_upd_other:
  "fname f \<noteq> name \<Longrightarrow> field_value (src(name \<mapsto> v)) f = field_value src f"
  by (simp add: field_value_def)

lemma validated_upd_other:
  assumes "n \<noteq> name"
  shows "validated (src(name \<mapsto> v)) n = validated src n"
proof (cases "find (\<lambda>f. fname f = n) settings_fields")
  case None
  then show ?thesis by (simp add: validated_def)
next
  case (Some g)
  then have "fname g = n"
    by (auto simp: find_Some_iff)
  with assms Some show ?thesis
    by (simp add: validated_def field_value_upd_other)
qed

lemma int_field_value:
  "ftype f = TInt \<Longrightarrow> fname f = name \<Longrightarrow> field_value (src(name \<mapsto> PInt k)) f = Inr (PInt k)"
  by (simp add: field_value_def pre_validator_def)

lemma validation_errors_int_upd:
  assumes "validation_errors src = []" and "int_field name"
  shows "validation_errors (src(name \<mapsto> PInt k)) = []"
proof -
  have "(case field_value (src(name \<mapsto> PInt k)) f of Inl e \<Rightarrow> [e] | Inr v \<Rightarrow> []) = []"
    if "f \<in> set settings_fields" for f
  proof (cases "fname f = name")
    case True
    with that assms(2) have "ftype f = TInt"
      by (simp add: int_field_def)
    with True show ?thesis
      by (simp add: int_field_value)
  next
    case False
    from no_errors_field [OF assms(1) that] obtain v where "field_value src f = Inr v" ..
    with False show ?thesis
      by (simp add: field_value_upd_other)
  qed
  then show ?thesis
    by (simp add: validation_errors_def)
qed

lemma validated_int_upd:
  assumes "int_field name"
  shows "validated (src(name \<mapsto> PInt k)) name = Some (PInt k)"
proof -
  from assms obtain f where "f \<in> set settings_fields" and "fname f = name"
    by (auto simp: int_field_def)
  then have "find (\<lambda>g. fname g = name) settings_fields \<noteq> None"
    by (auto simp: find_None_iff)
  then obtain g where g: "find (\<lambda>g. fname g = name) settings_fields = Some g"
    by blast
  then have "fname g = name" and "g \<in> set settings_fields"
    by (auto simp: find_Some_iff)
  with assms have "field_value (src(name \<mapsto> PInt k)) g = Inr (PInt k)"
    by (simp add: int_field_def int_field_value)
  with g show ?thesis
    by (simp add: validated_def)
qed

lemma validated_int_upd_fun:
  "int_field name \<Longrightarrow>
   validated (src(name \<mapsto> PInt k)) = (validated src)(name := Some (PInt k))"
  by (rule ext) (simp add: validated_int_upd validated_upd_other)

lemma Settings_init_int_upd:
  assumes "Settings_init src = Inr s" and "int_field name"
  shows "Settings_init (src(name \<mapsto> PInt k)) =
           Inr (from_validated ((validated src)(name := Some (PInt k))))"
  using assms
  by (simp add: Settings_init_Inr validation_errors_int_upd validated_int_upd_fun)

lemma int_fields:
  "int_field ''database_pool_size''" "int_field ''redis_pool_size''"
  "int_field ''database_pool_timeout''" "int_field ''agent_timeout''"
  "int_field ''agent_max_retries''"
  by (simp_all add: int_field_def settings_fields_def)

lemma from_validated_upd:
  "from_validated (d(''database_pool_size'' := Some (PInt k))) =
     (from_validated d)\<lparr>database_pool_size := k\<rparr>"
  "from_validated (d(''redis_pool_size'' := Some (PInt k))) =
     (from_validated d)\<lparr>redis_pool_size := k\<rparr>"
  "from_validated (d(''database_pool_timeout'' := Some (PInt k))) =
     (from_validated d)\<lparr>database_pool_timeout := k\<rparr>"
  "from_validated (d(''agent_timeout'' := Some (PInt k))) =
     (from_validated d)\<lparr>agent_timeout := k\<rparr>"
  "from_validated (d(''agent_max_retries'' := Some (PInt k))) =
     (from_validated d)\<lparr>agent_max_retries := k\<rparr>"
  by (simp_all add: from_validated_def)

lemma example_resolves: "Settings_init example_sources = Inr example_settings"
  by code_simp

text \<open>
  Claim C7, as stated, says that a negative pool size, timeout or retry count makes the
  construction fail. It does not: with \<^verbatim>\<open>database_pool_size\<close> given as \<open>-1\<close> and
  the required fields valid, the settings object is returned and holds \<open>-1\<close>.
\<close>

theorem negative_pool_size_accepted:
  "Settings_init (example_sources(''database_pool_size'' \<mapsto> PInt (- 1))) =
     Inr (example_settings\<lparr>database_pool_size := - 1\<rparr>) \<and>
   database_pool_size (example_settings\<lparr>database_pool_size := - 1\<rparr>) < 0"
proof -
  have "Settings_init (example_sources(''database_pool_size'' \<mapsto> PInt (- 1))) =
          Inr (from_validated ((validated example_sources)(''database_pool_size'' := Some (PInt (- 1)))))"
    by (rule Settings_init_int_upd [OF example_resolves int_fields(1)])
  moreover have "example_settings = from_validated (validated example_sources)"
    using example_resolves by (simp add: Settings_init_Inr)
  ultimately show ?thesis
    by (simp add: from_validated_upd)
qed

text \<open>
  Claim C7, amended. The pool sizes, timeouts and retry count are declared as \<^verbatim>\<open>int\<close>
  with no bound, so any integer is accepted for them, a negative one too: if the sources
  resolve to a settings object, then the sources with such a field set to an integer \<open>k\<close>
  resolve as well, to the same object with that field equal to \<open>k\<close>.
\<close>

theorem integer_fields_unconstrained:
  assumes "Settings_init src = Inr s"
  shows "Settings_init (src(''database_pool_size'' \<mapsto> PInt k)) = Inr (s\<lparr>database_pool_size := k\<rparr>)
    \<and> Settings_init (src(''redis_pool_size'' \<mapsto> PInt k)) = Inr (s\<lparr>redis_pool_size := k\<rparr>)
    \<and> Settings_init (src(''database_pool_timeout'' \<mapsto> PInt k)) = Inr (s\<lparr>database_pool_timeout := k\<rparr>)
    \<and> Settings_init (src(''agent_timeout'' \<mapsto> PInt k)) = Inr (s\<lparr>agent_timeout := k\<rparr>)
    \<and> Settings_init (src(''agent_max_retries'' \<mapsto> PInt k)) = Inr (s\<lparr>agent_max_retries := k\<rparr>)"
proof -
  from assms have s: "s = from_validated (validated src)"
    by (simp add: Settings_init_Inr)
  show ?thesis
    unfolding s
    using int_fields [THEN Settings_init_int_upd [OF assms], of k]
    by (simp add: from_validated_upd)
qed

theorem integer_fields_unconstrained_witness:
  "Settings_init example_sources = Inr example_settings \<and>
   Settings_init (example_sources(''agent_max_retries'' \<mapsto> PInt (- 3))) =
     Inr (example_settings\<lparr>agent_max_retries := - 3\<rparr>)"
  using integer_fields_unconstrained [OF example_resolves, of "- 3"] example_resolves
  by simp

subsection \<open>Every field of a constructed object has its annotated type\<close>

lemma validator_same: "validator name v = Inr v' \<Longrightarrow> v' = v"
  by (cases v)
     (auto simp: validate_database_url_def validate_redis_url_def split: if_splits)

lemma defaults_typed:
  "\<forall>f\<in>set settings_fields. \<forall>d. fdefault f = Some d \<longrightarrow> has_type (ftype f) d"
  by (simp add: settings_fields_def)

lemma distinct_names: "distinct (map fname settings_fields)"
  by (simp add: settings_fields_def)

lemma find_distinct:
  "distinct (map fname fs) \<Longrightarrow> f \<in> set fs \<Longrightarrow> find (\<lambda>g. fname g = fname f) fs = Some f"
  by (induction fs) (auto simp: image_iff)

lemma field_value_typed:
  assumes "f \<in> set settings_fields" and "field_value src f = Inr v"
  shows "has_type (ftype f) v"
proof (cases "src (fname f)")
  case None
  with assms(2) have "fdefault f = Some v"
    by (auto simp: field_value_def split: option.splits)
  with assms(1) defaults_typed show ?thesis by blast
next
  case (Some raw)
  with assms(2) show ?thesis
    by (auto simp: field_value_def Let_def split: if_splits dest: validator_same)
qed

lemma validated_has_type:
  assumes "Settings_init src = Inr s" and "f \<in> set settings_fields"
  shows "\<exists>v. validated src (fname f) = Some v \<and> has_type (ftype f) v"
proof -
  from assms(1) have "validation_errors src = []"
    by (simp add: Settings_init_Inr)
  from no_errors_field [OF this assms(2)] obtain v where v: "field_value src f = Inr v" ..
  moreover have "find (\<lambda>g. fname g = fname f) settings_fields = Some f"
    using distinct_names assms(2) by (rule find_distinct)
  ultimately have "validated src (fname f) = Some v"
    by (simp add: validated_def)
  with field_value_typed [OF assms(2) v] show ?thesis by simp
qed

section \<open>The lifespan manager\<close>

lemma info_step [simp]:
  "info msg \<lparr>trace = t, raised = None\<rparr> = \<lparr>trace = t @ [Info msg], raised = None\<rparr>"
  "info msg \<lparr>trace = t, raised = Some e\<rparr> = \<lparr>trace = t, raised = Some e\<rparr>"
  by (simp_all add: info_def)

lemma do_call_step [simp]:
  "do_call w c \<lparr>trace = t, raised = None\<rparr> = \<lparr>trace = t @ [Call c], raised = w c\<rparr>"
  "do_call w c \<lparr>trace = t, raised = Some e\<rparr> = \<lparr>trace = t, raised = Some e\<rparr>"
  by (simp_all add: do_call_def)

lemma calls_of_append: "calls_of (xs @ ys) = calls_of xs @ calls_of ys"
  by (induction xs rule: calls_of.induct) simp_all

lemma calls_of_info [simp]: "calls_of (trace (info msg r)) = calls_of (trace r)"
  by (simp add: info_def calls_of_append)

lemmas lifespan_defs = lifespan_def lifespan_startup_def lifespan_shutdown_def
  Let_def starts_def stops_def

text \<open>
  Claim C1, as stated, says that the shutdown phase stops the resources in the reverse of
  the order in which they were started. It does not: when every call returns, the database
  is stopped first and the agent pool last, which is the order of the starts.
\<close>

theorem shutdown_not_in_reverse_order:
  "stops (lifespan all_return example_settings) = [Database, Redis, AgentPool] \<and>
   stops (lifespan all_return example_settings) \<noteq> rev (starts (lifespan all_return example_settings))"
  by (simp add: lifespan_defs all_return_def example_settings_def)

text \<open>
  Claim C1, amended. When all three resources started and the application has served
  without an exception, and \<^verbatim>\<open>close_db\<close> and \<^verbatim>\<open>close_redis\<close> return, the shutdown
  phase invokes the stop of every resource exactly once, in the order database, Redis,
  agent pool: the same order as the starts, not its reverse.
\<close>

theorem shutdown_in_start_order:
  assumes "w SetupLogging = None"
    and "enable_performance_monitoring s \<longrightarrow> w InitMonitoring = None"
    and "w InitDb = None" and "w (InitRedis (redis_url s)) = None" and "w InitAgentPool = None"
    and "w Yield = None"
    and "w CloseDb = None" and "w CloseRedis = None"
  shows "starts (lifespan w s) = [Database, Redis, AgentPool] \<and>
         stops (lifespan w s) = [Database, Redis, AgentPool]"
  using assms by (cases "enable_performance_monitoring s") (simp_all add: lifespan_defs)

theorem shutdown_in_start_order_witness:
  "all_return SetupLogging = None \<and> all_return InitDb = None \<and>
   all_return (InitRedis (redis_url example_settings)) = None \<and>
   all_return InitAgentPool = None \<and> all_return Yield = None \<and>
   all_return CloseDb = None \<and> all_return CloseRedis = None \<and>
   stops (lifespan all_return example_settings) = [Database, Redis, AgentPool]"
  using shutdown_in_start_order [of all_return example_settings]
  by (simp add: all_return_def)

text \<open>
  Claim C2, as stated, says that when \<^verbatim>\<open>init_redis\<close> fails after \<^verbatim>\<open>init_db\<close>
  succeeded, the database is closed before the failure propagates. It is not: the exception
  propagates with no stop invoked at all.
\<close>

theorem startup_failure_stops_nothing:
  "raised (lifespan (raises_at (InitRedis ''redis://localhost:6379'') connection_error)
             example_settings) = Some connection_error \<and>
   starts (lifespan (raises_at (InitRedis ''redis://localhost:6379'') connection_error)
             example_settings) = [Database, Redis] \<and>
   stops (lifespan (raises_at (InitRedis ''redis://localhost:6379'') connection_error)
            example_settings) = []"
  by (simp add: lifespan_defs raises_at_def example_settings_def)

text \<open>
  Claim C2, amended. The resources are started in the order database, Redis, agent pool.
  If the start of one of them raises, that exception propagates out of the lifespan manager
  at once: no later resource is started, the application never serves, and no resource is
  stopped (the resources started earlier are left as they are).
\<close>

theorem startup_failure_propagates:
  assumes "w SetupLogging = None"
    and "enable_performance_monitoring s \<longrightarrow> w InitMonitoring = None"
  shows
   "(w InitDb = Some e \<longrightarrow>
       raised (lifespan w s) = Some e \<and> starts (lifespan w s) = [Database] \<and>
       stops (lifespan w s) = [] \<and> Call Yield \<notin> set (trace (lifespan w s))) \<and>
    (w InitDb = None \<and> w (InitRedis (redis_url s)) = Some e \<longrightarrow>
       raised (lifespan w s) = Some e \<and> starts (lifespan w s) = [Database, Redis] \<and>
       stops (lifespan w s) = [] \<and> Call Yield \<notin> set (trace (lifespan w s))) \<and>
    (w InitDb = None \<and> w (InitRedis (redis_url s)) = None \<and> w InitAgentPool = Some e \<longrightarrow>
       raised (lifespan w s) = Some e \<and> starts (lifespan w s) = [Database, Redis, AgentPool] \<and>
       stops (lifespan w s) = [] \<and> Call Yield \<notin> set (trace (lifespan w s)))"
  using assms by (cases "enable_performance_monitoring s") (simp_all add: lifespan_defs)

theorem startup_failure_propagates_witness:
  "raised (lifespan (raises_at InitDb connection_error) example_settings) = Some connection_error \<and>
   starts (lifespan (raises_at InitDb connection_error) example_settings) = [Database] \<and>
   raised (lifespan (raises_at (InitRedis (redis_url example_settings)) connection_error)
      example_settings) = Some connection_error \<and>
   starts (lifespan (raises_at (InitRedis (redis_url example_settings)) connection_error)
      example_settings) = [Database, Redis] \<and>
   stops (lifespan (raises_at (InitRedis (redis_url example_settings)) connection_error)
      example_settings) = [] \<and>
   raised (lifespan (raises_at InitAgentPool connection_error) example_settings)
     = Some connection_error \<and>
   starts (lifespan (raises_at InitAgentPool connection_error) example_settings)
     = [Database, Redis, AgentPool]"
  using startup_failure_propagates [of "raises_at InitDb connection_error" example_settings connection_error]
    startup_failure_propagates [of "raises_at (InitRedis (redis_url example_settings)) connection_error"
          example_settings connection_error]
    startup_failure_propagates [of "raises_at InitAgentPool connection_error" example_settings connection_error]
  by (simp add: raises_at_def example_settings_def)

section \<open>The application and its exception handler\<close>

text \<open>
  Claim C3. The handler that \<open>create_app\<close> registers is \<open>global_exception_handler\<close>.
  In production its response has status 500 and the fixed body
  \<^verbatim>\<open>{"detail": "Internal server error"}\<close>, whatever the exception and the request: any
  two exceptions get the same response, so it carries nothing of the exception. Outside
  production the response has status 500 and holds \<^verbatim>\<open>str(exc)\<close> under \<^verbatim>\<open>detail\<close> and
  the name of the exception's type under \<^verbatim>\<open>type\<close>.
\<close>

theorem global_exception_handler_response:
  "(is_production s \<longrightarrow>
      snd (global_exception_handler s request exc) =
        \<lparr>status_code = 500, content = [(''detail'', ''Internal server error'')]\<rparr> \<and>
      snd (global_exception_handler s request exc) =
        snd (global_exception_handler s request' exc')) \<and>
   (\<not> is_production s \<longrightarrow>
      status_code (snd (global_exception_handler s request exc)) = 500 \<and>
      map_of (content (snd (global_exception_handler s request exc))) ''detail'' = Some (str exc) \<and>
      map_of (content (snd (global_exception_handler s request exc))) ''type''
        = Some (type_name exc)) \<and>
   exception_handler (create_app s) = Some (global_exception_handler s)"
  by (cases "enable_rate_limiting s")
     (simp_all add: global_exception_handler_def create_app_def Let_def add_middleware_def
      mount_def include_router_def)

theorem global_exception_handler_response_witness:
  "is_production (example_settings\<lparr>environment := ''production''\<rparr>) \<and>
   snd (global_exception_handler (example_settings\<lparr>environment := ''production''\<rparr>)
          \<lparr>http_method = ''GET'', path = ''/api/v1/agents''\<rparr> connection_error) =
     \<lparr>status_code = 500, content = [(''detail'', ''Internal server error'')]\<rparr> \<and>
   \<not> is_production example_settings \<and>
   map_of (content (snd (global_exception_handler example_settings
          \<lparr>http_method = ''GET'', path = ''/api/v1/agents''\<rparr> connection_error))) ''detail''
     = Some ''connection refused'' \<and>
   map_of (content (snd (global_exception_handler example_settings
          \<lparr>http_method = ''GET'', path = ''/api/v1/agents''\<rparr> connection_error))) ''type''
     = Some ''ConnectionError''"
  using global_exception_handler_response [of "example_settings\<lparr>environment := ''production''\<rparr>"
             "\<lparr>http_method = ''GET'', path = ''/api/v1/agents''\<rparr>" connection_error]
        global_exception_handler_response [of example_settings "\<lparr>http_method = ''GET'', path = ''/api/v1/agents''\<rparr>" connection_error]
  by (simp add: is_production_def example_settings_def connection_error_def)

text \<open>
  Claim C4, as stated, says that a request goes through host validation, CORS, logging,
  metrics and rate limiting in that order. With the registrations of \<open>create_app\<close> and the
  rule that a middleware registered later runs outermost, it goes through them in another
  order: rate limiting comes first, host validation and CORS last.
\<close>

theorem request_stages_not_as_specified:
  "request_stages (create_app example_settings) =
     [RateLimiting, MetricsRecording, RequestLogging, HostValidation, CorsPolicy, RouterDispatch] \<and>
   request_stages (create_app example_settings) \<noteq> specified_stages"
  by (simp add: request_stages_def create_app_def Let_def add_middleware_def
      mount_def include_router_def example_settings_def specified_stages_def)

text \<open>
  Claim C4, amended. A request goes through the stages in the reverse of the order of
  registration in \<open>create_app\<close>: rate limiting (registered last, and only when rate
  limiting is enabled), then metrics recording, then request logging, then host validation,
  then the CORS policy (registered first), and only then the dispatch to the routers.
\<close>

theorem request_stages_of_create_app:
  "request_stages (create_app s) =
     (if enable_rate_limiting s then [RateLimiting] else []) @
     [MetricsRecording, RequestLogging, HostValidation, CorsPolicy, RouterDispatch]"
  by (cases "enable_rate_limiting s")
     (simp_all add: request_stages_def create_app_def Let_def add_middleware_def
      mount_def include_router_def)

theorem request_stages_of_create_app_witness:
  "request_stages (create_app (example_settings\<lparr>enable_rate_limiting := False\<rparr>)) =
     [MetricsRecording, RequestLogging, HostValidation, CorsPolicy, RouterDispatch]"
  using request_stages_of_create_app [of "example_settings\<lparr>enable_rate_limiting := False\<rparr>"]
  by simp

text \<open>
  Claim C9. Production is recognised by the exact string \<^verbatim>\<open>production\<close>: for every
  other value of \<^verbatim>\<open>environment\<close> the handler returns the response with the exception's
  message and type name, and the application is created with its \<^verbatim>\<open>/docs\<close>,
  \<^verbatim>\<open>/redoc\<close> and \<^verbatim>\<open>/openapi.json\<close> endpoints.
\<close>

theorem non_production_is_verbose:
  assumes "environment s \<noteq> ''production''"
  shows "snd (global_exception_handler s request exc) =
           \<lparr>status_code = 500, content = [(''detail'', str exc), (''type'', type_name exc)]\<rparr> \<and>
         docs_url (create_app s) = Some ''/docs'' \<and>
         redoc_url (create_app s) = Some ''/redoc'' \<and>
         openapi_url (create_app s) = Some ''/openapi.json''"
  using assms
  by (cases "enable_rate_limiting s")
     (simp_all add: global_exception_handler_def is_production_def create_app_def Let_def
      add_middleware_def mount_def include_router_def)

theorem non_production_is_verbose_witness:
  "environment (example_settings\<lparr>environment := ''Production''\<rparr>) \<noteq> ''production'' \<and>
   snd (global_exception_handler (example_settings\<lparr>environment := ''Production''\<rparr>)
          \<lparr>http_method = ''GET'', path = ''/api/v1/agents''\<rparr> connection_error) =
     \<lparr>status_code = 500,
      content = [(''detail'', ''connection refused''), (''type'', ''ConnectionError'')]\<rparr> \<and>
   docs_url (create_app (example_settings\<lparr>environment := ''Production''\<rparr>)) = Some ''/docs''"
  using non_production_is_verbose [of "example_settings\<lparr>environment := ''Production''\<rparr>"
        "\<lparr>http_method = ''GET'', path = ''/api/v1/agents''\<rparr>" connection_error]
  by (simp add: connection_error_def)

end
